theory Spec2Isabelle
  imports Complex_Main "HOL-Library.Product_Lexorder"
begin

section \<open>Numeric helpers\<close>

text \<open>
  Prices, quantities and scores are Python floats in \<^verbatim>\<open>ictbot.py\<close>. They are modelled
  as rationals with exact arithmetic: every comparison, floor and ceiling of the source
  is kept, binary rounding error is not represented. Timestamps and counters are Python
  ints and are modelled as \<^typ>\<open>int\<close>.
\<close>

definition EPS :: rat where
  "EPS = 1 / 1000000000"


definition within_bps :: "rat \<Rightarrow> rat \<Rightarrow> rat \<Rightarrow> bool" where
  "within_bps a b tol_bps =
     (let denom = max EPS ((\<bar>a\<bar> + \<bar>b\<bar>) / 2)
      in \<bar>a - b\<bar> / denom * 10000 \<le> tol_bps)"

definition bps_distance :: "rat \<Rightarrow> rat \<Rightarrow> rat" where
  "bps_distance a b =
     (let denom = max EPS ((\<bar>a\<bar> + \<bar>b\<bar>) / 2)
      in \<bar>a - b\<bar> / denom * 10000)"

text \<open>Python's \<^verbatim>\<open>round(x, n)\<close>: to \<open>n\<close> decimals, ties to the even neighbour.\<close>

definition py_round :: "rat \<Rightarrow> nat \<Rightarrow> rat" where
  "py_round x n =
     (let s = 10 ^ n; y = x * s; f = \<lfloor>y\<rfloor>; d = y - of_int f
      in of_int (if d < 1 / 2 then f else if 1 / 2 < d then f + 1
                 else if even f then f else f + 1) / s)"

section \<open>Configuration and run state\<close>

datatype side = Long | Short

record Config =
  max_trades_per_day :: int
  max_daily_loss_pct :: rat
  trail_activation_R :: rat
  trail_atr_k :: rat
  trail_min_tick_improve :: int
  position_check_before_trail :: bool
  funding_aware_enable :: bool
  funding_window_min :: int
  funding_window_symmetric :: bool
  funding_block_near :: bool
  funding_penalty_score :: rat
  funding_high_abs_bps :: rat
  funding_risk_mult_high :: rat
  pool_cluster_bps :: rat
  pool_topk_per_side :: int
  sweep_t_reject_max_bars :: int
  fvg_min_ticks :: int
  fvg_gap_use_bps :: bool
  fvg_gap_min_bps :: rat
  fvg_gap_relax_bps :: rat
  score_cand_base_offset :: rat
  score_cand_fvgq_w :: rat
  displacement_w :: rat
  fvgq_gap_w :: rat
  fvgq_vol_w :: rat
  fvgq_gap_norm :: rat
  fvgq_vol_shift :: rat
  fvgq_vol_scale :: rat

text \<open>A closed candle \<^verbatim>\<open>[time, open, high, low, close, volume]\<close>.\<close>

record candle =
  otime :: int
  opn :: rat
  high :: rat
  low :: rat
  cls :: rat
  volume :: rat

record RunState =
  kl_1m :: "candle list"
  kl_5m :: "candle list"
  last_market_ws_ts :: int
  realized_today :: rat
  trades_today :: int
  day_start_equity :: rat
  last_loss_server_ms :: "int option"
  account_cr :: "string \<rightharpoonup> rat"
  tick :: rat
  last_trailing_sl :: "rat option"
  last_trailing_side :: "side option"
  last_trailing_client_id :: "string option"
  last_trailing_order_id :: "int option"
  last_server_ms :: "int option"

text \<open>The only exception class the modelled paths catch by name or let escape.\<close>

datatype error = RequestException

section \<open>Funding gate\<close>

text \<open>
  The reply of \<^verbatim>\<open>premium_index\<close>: the request can raise, the payload can fail to parse
  (\<^verbatim>\<open>current_funding_info\<close> then returns \<^verbatim>\<open>(None, None)\<close>), or it carries the
  fields read by \<^verbatim>\<open>current_funding_info\<close>; \<open>None\<close> is an absent key.
\<close>

record premium =
  lastFundingRate :: "rat option"
  fundingRate :: "rat option"
  nextFundingTime :: "int option"

datatype premium_reply = Unavailable | Malformed | Premium premium

definition current_funding_info :: "premium_reply \<Rightarrow> error + (rat option \<times> int option)" where
  "current_funding_info r =
     (case r of
        Unavailable \<Rightarrow> Inl RequestException
      | Malformed \<Rightarrow> Inr (None, None)
      | Premium j \<Rightarrow>
          (let rate = (case lastFundingRate j of Some x \<Rightarrow> x
                       | None \<Rightarrow> (case fundingRate j of Some x \<Rightarrow> x | None \<Rightarrow> 0))
           in Inr (Some rate, nextFundingTime j)))"

record funding_meta =
  reason :: "string option"
  mins_to :: "rat option"
  abs_bps :: "rat option"

type_synonym gate_result = "bool \<times> rat \<times> rat \<times> funding_meta"

definition funding_gate :: "premium_reply \<Rightarrow> RunState \<Rightarrow> Config \<Rightarrow> error + gate_result" where
  "funding_gate ex st cfg =
     (if \<not> funding_aware_enable cfg
      then Inr (False, 0, 1, \<lparr>reason = None, mins_to = None, abs_bps = None\<rparr>)
      else
        (case current_funding_info ex of
           Inl e \<Rightarrow> Inl e
         | Inr (rate, nft) \<Rightarrow>
            (case (nft, last_server_ms st) of
               (Some n, Some s) \<Rightarrow>
                 (let mins = of_int (n - s) / 60000;
                      window = of_int (max 1 (funding_window_min cfg));
                      near = (if funding_window_symmetric cfg then \<bar>mins\<bar> \<le> window
                              else 0 \<le> mins \<and> mins \<le> window);
                      ab = \<bar>case rate of Some x \<Rightarrow> x | None \<Rightarrow> 0\<bar> * 10000;
                      hi = (funding_high_abs_bps cfg \<le> ab)
                  in if near \<and> funding_block_near cfg
                     then Inr (True, 0, 1,
                            \<lparr>reason = Some ''near_funding_block'',
                             mins_to = Some (py_round mins 2), abs_bps = Some (py_round ab 4)\<rparr>)
                     else Inr (False,
                            (if near then funding_penalty_score cfg else 0),
                            (if hi then funding_risk_mult_high cfg else 1),
                            \<lparr>reason = Some (if near then ''near_penalty''
                                            else if hi then ''high_funding_risk'' else ''ok''),
                             mins_to = Some (py_round mins 2), abs_bps = Some (py_round ab 4)\<rparr>))
             | _ \<Rightarrow> Inr (True, 0, 1,
                        \<lparr>reason = Some ''time_unknown'', mins_to = None, abs_bps = None\<rparr>))))"

text \<open>Whether the gate returned and asked to skip the entry.\<close>

definition gate_blocks :: "error + gate_result \<Rightarrow> bool" where
  "gate_blocks r = (case r of Inl _ \<Rightarrow> False | Inr (b, _) \<Rightarrow> b)"

definition cfg0 :: Config where
  "cfg0 = \<lparr>max_trades_per_day = 6, max_daily_loss_pct = 3 / 100,
           trail_activation_R = 3 / 2, trail_atr_k = 3 / 4, trail_min_tick_improve = 1,
           position_check_before_trail = True,
           funding_aware_enable = True, funding_window_min = 7,
           funding_window_symmetric = True, funding_block_near = True,
           funding_penalty_score = 15 / 100, funding_high_abs_bps = 10,
           funding_risk_mult_high = 6 / 10,
           pool_cluster_bps = 8, pool_topk_per_side = 4,
           sweep_t_reject_max_bars = 5, fvg_min_ticks = 2, fvg_gap_use_bps = False,
           fvg_gap_min_bps = 8, fvg_gap_relax_bps = 0,
           score_cand_base_offset = 1 / 2, score_cand_fvgq_w = 35 / 100,
           displacement_w = 5 / 100,
           fvgq_gap_w = 6 / 10, fvgq_vol_w = 4 / 10, fvgq_gap_norm = 2,
           fvgq_vol_shift = 2, fvgq_vol_scale = 4\<rparr>"

definition st0 :: RunState where
  "st0 = \<lparr>kl_1m = [], kl_5m = [], last_market_ws_ts = 0, realized_today = 0,
          trades_today = 0, day_start_equity = 1000, last_loss_server_ms = None, account_cr = Map.empty,
          tick = 1 / 10, last_trailing_sl = None, last_trailing_side = None,
          last_trailing_client_id = None, last_trailing_order_id = None,
          last_server_ms = None\<rparr>"

definition premium0 :: premium where
  "premium0 = \<lparr>lastFundingRate = Some (1 / 10000), fundingRate = None,
               nextFundingTime = Some 1700000000000\<rparr>"

section \<open>Daily guardrail and realized PnL\<close>

text \<open>
  One position entry \<^verbatim>\<open>p\<close> of an \<^verbatim>\<open>ACCOUNT_UPDATE\<close> event: the symbol (already
  upper-cased) and the cumulative realized value \<^verbatim>\<open>cr\<close>. \<open>now\<close> is \<^verbatim>\<open>now_ms()\<close>.
\<close>

definition account_update_pos :: "int \<Rightarrow> RunState \<Rightarrow> string \<times> rat \<Rightarrow> RunState" where
  "account_update_pos now st p =
     (case p of (s, cr) \<Rightarrow>
        (case account_cr st s of
           None \<Rightarrow> st\<lparr>account_cr := (account_cr st)(s \<mapsto> cr)\<rparr>
         | Some prev \<Rightarrow>
             (let delta = cr - prev
              in if delta \<noteq> 0
                 then st\<lparr>realized_today := realized_today st + delta,
                         last_loss_server_ms :=
                           (if delta < 0
                            then Some (case last_server_ms st of Some ms \<Rightarrow> ms | None \<Rightarrow> now)
                            else last_loss_server_ms st),
                         account_cr := (account_cr st)(s \<mapsto> cr)\<rparr>
                 else st)))"

definition on_account_update :: "int \<Rightarrow> RunState \<Rightarrow> (string \<times> rat) list \<Rightarrow> RunState" where
  "on_account_update now st poss = foldl (account_update_pos now) st poss"

definition daily_guardrails_blocked :: "RunState \<Rightarrow> Config \<Rightarrow> bool" where
  "daily_guardrails_blocked st cfg =
     (if max_trades_per_day cfg \<le> trades_today st then True
      else
        (let realized_day_loss = max 0 (- realized_today st)
         in if max_daily_loss_pct cfg \<le> realized_day_loss / max EPS (day_start_equity st)
            then True else False))"

text \<open>
  The spec's wording of the loss figure, for comparison with the code: the deltas the
  handler applies for one symbol, and the sum of the losses among them alone.
\<close>

fun cr_deltas :: "rat \<Rightarrow> rat list \<Rightarrow> rat list" where
  "cr_deltas prev [] = []"
| "cr_deltas prev (cr # crs) = (cr - prev) # cr_deltas cr crs"

definition losses_only :: "rat list \<Rightarrow> rat" where
  "losses_only ds = sum_list (map (\<lambda>d. max 0 (- d)) ds)"

section \<open>Side-aware rounding\<close>

text \<open>
  \<^verbatim>\<open>decimals_for_tick\<close> reads the number of decimals off the decimal text of the tick.
  Tick sizes are venue filters and finite decimals; the model takes the least number of
  places, up to 18, at which the tick is a whole number of units, and 18 otherwise.
\<close>

definition decimals_for_tick :: "rat \<Rightarrow> nat" where
  "decimals_for_tick t =
     (case filter (\<lambda>d. t * 10 ^ d = of_int \<lfloor>t * 10 ^ d\<rfloor>) [0..<18] of
        [] \<Rightarrow> 18 | d # _ \<Rightarrow> d)"

datatype favor = ForEntry | ForProtection

text \<open>
  \<^verbatim>\<open>side_round\<close> takes \<^verbatim>\<open>"buy"\<close>/\<^verbatim>\<open>"long"\<close> (here \<open>Long\<close>) or \<^verbatim>\<open>"sell"\<close>/\<^verbatim>\<open>"short"\<close>
  (here \<open>Short\<close>).
\<close>

definition side_round :: "rat \<Rightarrow> rat \<Rightarrow> side \<Rightarrow> favor \<Rightarrow> rat" where
  "side_round price tk s fv =
     (if tk \<le> 0 then price
      else
        (let is_buy = (s = Long);
             v = (if is_buy
                  then (if fv = ForEntry then of_int \<lfloor>price / tk\<rfloor> * tk
                        else of_int \<lceil>price / tk\<rceil> * tk)
                  else (if fv = ForEntry then of_int \<lceil>price / tk\<rceil> * tk
                        else of_int \<lfloor>price / tk\<rfloor> * tk))
         in py_round v (decimals_for_tick (max EPS tk))))"

section \<open>Average true range\<close>

definition true_ranges :: "candle list \<Rightarrow> rat list" where
  "true_ranges df =
     map (\<lambda>i. (let h = high (df ! i); lo = low (df ! i); pc = cls (df ! (i - 1))
               in max (h - lo) (max \<bar>h - pc\<bar> \<bar>lo - pc\<bar>)))
         [1..<length df]"

definition atr :: "candle list \<Rightarrow> nat \<Rightarrow> rat" where
  "atr df period =
     (if length df < period + 1 then 0
      else
        (let trs = true_ranges df
         in if length trs < period then 0
            else sum_list (drop (length trs - period) trs) / of_nat period))"

section \<open>The exchange gateway\<close>

text \<open>
  The venue is an external collaborator. It is modelled as the order list of the symbol,
  the position rows, and a script of transport outcomes consumed one per request; an
  empty script means the request goes through. A failed request raises
  \<^verbatim>\<open>RequestException\<close> at the caller (an HTTP error status is a subclass of it).
  \<open>Failed\<close>: the request had no effect. \<open>AckLost\<close>: the venue applied it, the reply
  was lost. \<open>Delayed\<close>: the caller timed out while the order submission was still on
  its way; it is kept in \<open>in_flight\<close> and \<open>deliver\<close> lets it arrive.
\<close>

datatype order_type = MARKET | LIMIT | STOP_MARKET | TAKE_PROFIT_MARKET
datatype order_side = BUY | SELL
datatype order_status = NEW | PARTIALLY_FILLED | FILLED | CANCELED | REJECTED | EXPIRED

record order =
  orderId :: "int option"
  clientOrderId :: "string option"
  otype :: order_type
  oside :: order_side
  closePosition :: bool
  reduceOnly :: bool
  stopPrice :: "rat option"
  quantity :: "rat option"
  updateTime :: int
  status :: order_status

datatype outcome = Ok | Failed | AckLost | Delayed | Arrive

record exchange =
  orders :: "order list"
  in_flight :: "order list"
  positionAmt :: "rat list"
  net :: "outcome list"
  next_id :: int
  posts :: nat
  gets :: nat

definition is_open :: "order \<Rightarrow> bool" where
  "is_open od = (status od = NEW \<or> status od = PARTIALLY_FILLED)"

text \<open>The venue books a submission: it assigns the order id and marks it \<open>NEW\<close>.\<close>

definition book :: "exchange \<Rightarrow> order \<Rightarrow> exchange" where
  "book ex od =
     ex\<lparr>orders := orders ex @ [od\<lparr>orderId := Some (next_id ex), status := NEW,
                                  updateTime := next_id ex\<rparr>],
        next_id := next_id ex + 1\<rparr>"

fun deliver_all :: "exchange \<Rightarrow> order list \<Rightarrow> exchange" where
  "deliver_all ex [] = ex"
| "deliver_all ex (od # ods) = deliver_all (book ex od) ods"

definition deliver :: "exchange \<Rightarrow> exchange" where
  "deliver ex = deliver_all (ex\<lparr>in_flight := []\<rparr>) (in_flight ex)"

text \<open>
  The outcome of the next request. An \<open>Arrive\<close> in the script stands between two
  requests: the submissions in flight reach the venue, then the script goes on.
\<close>

fun pop_outcome :: "outcome list \<Rightarrow> exchange \<Rightarrow> outcome \<times> exchange" where
  "pop_outcome [] ex = (Ok, ex\<lparr>net := []\<rparr>)"
| "pop_outcome (Arrive # xs) ex = pop_outcome xs (deliver ex)"
| "pop_outcome (x # xs) ex = (x, ex\<lparr>net := xs\<rparr>)"

definition next_outcome :: "exchange \<Rightarrow> outcome \<times> exchange" where
  "next_outcome ex = pop_outcome (net ex) ex"

definition new_order :: "exchange \<Rightarrow> order \<Rightarrow> (error + unit) \<times> exchange" where
  "new_order ex od =
     (case next_outcome (ex\<lparr>posts := Suc (posts ex)\<rparr>) of (r, ex1) \<Rightarrow>
        (case r of
           Ok \<Rightarrow> (Inr (), book ex1 od)
         | AckLost \<Rightarrow> (Inl RequestException, book ex1 od)
         | Delayed \<Rightarrow> (Inl RequestException, ex1\<lparr>in_flight := in_flight ex1 @ [od]\<rparr>)
         | _ \<Rightarrow> (Inl RequestException, ex1)))"

text \<open>
  Cancelling marks every open order the predicate selects \<open>CANCELED\<close>; when it selects
  none the venue answers with an error status. A delayed cancel counts as failed.
\<close>

definition cancel_where :: "exchange \<Rightarrow> (order \<Rightarrow> bool) \<Rightarrow> (error + unit) \<times> exchange" where
  "cancel_where ex sel =
     (case next_outcome ex of (r, ex1) \<Rightarrow>
        (let hit = (\<lambda>od. is_open od \<and> sel od);
             ex2 = ex1\<lparr>orders := map (\<lambda>od. if hit od then od\<lparr>status := CANCELED\<rparr> else od) (orders ex1)\<rparr>
         in if r = Ok \<or> r = AckLost
            then (if list_ex hit (orders ex1)
                  then ((if r = Ok then Inr () else Inl RequestException), ex2)
                  else (Inl RequestException, ex1))
            else (Inl RequestException, ex1)))"

definition cancel_order_cid :: "exchange \<Rightarrow> string \<Rightarrow> (error + unit) \<times> exchange" where
  "cancel_order_cid ex cid = cancel_where ex (\<lambda>od. clientOrderId od = Some cid)"

definition cancel_order_id :: "exchange \<Rightarrow> int \<Rightarrow> (error + unit) \<times> exchange" where
  "cancel_order_id ex oid = cancel_where ex (\<lambda>od. orderId od = Some oid)"

definition open_orders :: "exchange \<Rightarrow> (error + order list) \<times> exchange" where
  "open_orders ex =
     (case next_outcome ex of (r, ex1) \<Rightarrow>
        (if r = Ok then (Inr (filter is_open (orders ex1)), ex1)
         else (Inl RequestException, ex1)))"


definition position_net_and_gross :: "exchange \<Rightarrow> (error + rat \<times> rat) \<times> exchange" where
  "position_net_and_gross ex =
     (case next_outcome ex of (r, ex1) \<Rightarrow>
        (if r = Ok
         then (Inr (sum_list (positionAmt ex1), sum_list (map abs (positionAmt ex1))), ex1)
         else (Inl RequestException, ex1)))"

section \<open>Trailing stop manager\<close>

record TrailParams =
  side :: side
  entry :: rat
  stop :: rat
  current_price :: rat
  exec_df :: "candle list"

text \<open>Python's \<^verbatim>\<open>new_sl or stop\<close>: \<^verbatim>\<open>None\<close> and \<^verbatim>\<open>0.0\<close> are both falsy.\<close>

definition or_else :: "rat option \<Rightarrow> rat \<Rightarrow> rat" where
  "or_else v d = (case v of None \<Rightarrow> d | Some x \<Rightarrow> if x = 0 then d else x)"

definition compute_trail_target ::
  "side \<Rightarrow> rat \<Rightarrow> rat \<Rightarrow> rat \<Rightarrow> rat \<Rightarrow> rat \<Rightarrow> Config \<Rightarrow> rat option \<times> string option" where
  "compute_trail_target sd en sp cp r_multiple atr_val cfg =
     (let new_sl = (if 1 \<le> r_multiple
                    then Some (if sd = Long then max sp en else min sp en) else None)
      in if trail_activation_R cfg \<le> r_multiple
         then (if 0 < atr_val
               then (let trail_dist = trail_atr_k cfg * atr_val
                     in if sd = Long
                        then (Some (max (or_else new_sl sp) (cp - trail_dist)), None)
                        else (Some (min (or_else new_sl sp) (cp + trail_dist)), None))
               else (None, Some ''atr_zero''))
         else (new_sl, None))"

definition trailing_improvement_ok :: "RunState \<Rightarrow> side \<Rightarrow> rat \<Rightarrow> int \<Rightarrow> bool" where
  "trailing_improvement_ok st sd new_sl min_tick_improve =
     (let min_improve = of_int (max 1 min_tick_improve) * max EPS (tick st)
      in case (last_trailing_sl st, last_trailing_side st) of
           (Some last_sl, Some last_side) \<Rightarrow>
             (if last_side \<noteq> sd then True
              else if sd = Long \<and> last_sl + min_improve < new_sl then True
              else if sd = Short \<and> new_sl < last_sl - min_improve then True
              else False)
         | _ \<Rightarrow> True)"

text \<open>
  The cancel of the tracked stop as \<^verbatim>\<open>update_trailing_sl\<close> writes it three times: by
  client id when that is a non-empty string, else by order id when there is one.
\<close>

definition cancel_tracked :: "RunState \<Rightarrow> exchange \<Rightarrow> (error + unit) \<times> exchange" where
  "cancel_tracked st ex =
     (case last_trailing_client_id st of
        Some (c # cs) \<Rightarrow> cancel_order_cid ex (c # cs)
      | _ \<Rightarrow> (case last_trailing_order_id st of
                Some oid \<Rightarrow> cancel_order_id ex oid
              | None \<Rightarrow> (Inr (), ex)))"

definition cancel_prev_trailing_stop :: "exchange \<Rightarrow> RunState \<Rightarrow> exchange" where
  "cancel_prev_trailing_stop ex st = snd (cancel_tracked st ex)"

definition stop_request :: "RunState \<Rightarrow> side \<Rightarrow> rat \<Rightarrow> string \<Rightarrow> order" where
  "stop_request st sd new_sl cid =
     \<lparr>orderId = None, clientOrderId = Some cid, otype = STOP_MARKET,
      oside = (if sd = Long then SELL else BUY), closePosition = True, reduceOnly = False,
      stopPrice = Some (side_round new_sl (tick st) sd ForProtection), quantity = None,
      updateTime = 0, status = NEW\<rparr>"

text \<open>The best-effort cleanup loop over the open orders after a successful replace.\<close>

fun cleanup_loop :: "exchange \<Rightarrow> string \<Rightarrow> order list \<Rightarrow> exchange" where
  "cleanup_loop ex keep_cid [] = ex"
| "cleanup_loop ex keep_cid (od # ods) =
     (if otype od = STOP_MARKET \<and> closePosition od \<and> clientOrderId od \<noteq> Some keep_cid
      then (case orderId od of
              Some oid \<Rightarrow> cleanup_loop (snd (cancel_order_id ex oid)) keep_cid ods
            | None \<Rightarrow> cleanup_loop ex keep_cid ods)
      else cleanup_loop ex keep_cid ods)"

definition cleanup_extra_closeposition_stops :: "exchange \<Rightarrow> string \<Rightarrow> exchange" where
  "cleanup_extra_closeposition_stops ex keep_cid =
     (case open_orders ex of
        (Inl _, ex1) \<Rightarrow> ex1
      | (Inr oo, ex1) \<Rightarrow> cleanup_loop ex1 keep_cid oo)"

text \<open>
  The replace step of \<^verbatim>\<open>update_trailing_sl\<close>: place first; on any exception cancel the
  tracked stop and place once more, both inside one \<^verbatim>\<open>try\<close>, so that a failing cancel
  skips the second placement. Returns \<^verbatim>\<open>placed\<close>.
\<close>

definition replace_stop :: "RunState \<Rightarrow> exchange \<Rightarrow> order \<Rightarrow> bool \<times> exchange" where
  "replace_stop st ex req =
     (case new_order ex req of
        (Inr _, ex1) \<Rightarrow> (True, snd (cancel_tracked st ex1))
      | (Inl _, ex1) \<Rightarrow>
          (case cancel_tracked st ex1 of
             (Inl _, ex2) \<Rightarrow> (False, ex2)
           | (Inr _, ex2) \<Rightarrow>
               (case new_order ex2 req of
                  (Inr _, ex3) \<Rightarrow> (True, ex3)
                | (Inl _, ex3) \<Rightarrow> (False, ex3))))"

text \<open>\<open>new_cid\<close> is the value of \<^verbatim>\<open>_unique_cid("trail")\<close>.\<close>

definition trail_apply ::
  "RunState \<Rightarrow> exchange \<Rightarrow> Config \<Rightarrow> TrailParams \<Rightarrow> string \<Rightarrow> RunState \<times> exchange" where
  "trail_apply st ex cfg params new_cid =
     (let r = \<bar>current_price params - entry params\<bar> / max EPS \<bar>entry params - stop params\<bar>;
          a = atr (exec_df params) 14
      in case fst (compute_trail_target (side params) (entry params) (stop params)
                     (current_price params) r a cfg) of
           None \<Rightarrow> (st, ex)
         | Some new_sl \<Rightarrow>
             (if \<not> trailing_improvement_ok st (side params) new_sl (trail_min_tick_improve cfg)
              then (st, ex)
              else
                (case replace_stop st ex (stop_request st (side params) new_sl new_cid) of
                   (False, ex1) \<Rightarrow> (st, ex1)
                 | (True, ex1) \<Rightarrow>
                     (st\<lparr>last_trailing_sl := Some new_sl,
                         last_trailing_side := Some (side params),
                         last_trailing_client_id := Some new_cid,
                         last_trailing_order_id := None\<rparr>,
                      cleanup_extra_closeposition_stops ex1 new_cid))))"

definition update_trailing_sl ::
  "RunState \<Rightarrow> exchange \<Rightarrow> Config \<Rightarrow> TrailParams \<Rightarrow> string \<Rightarrow> RunState \<times> exchange" where
  "update_trailing_sl st ex cfg params new_cid =
     (if position_check_before_trail cfg
      then (case position_net_and_gross ex of
              (Inl _, ex1) \<Rightarrow> (st, ex1)
            | (Inr (_, gross), ex1) \<Rightarrow>
                (if gross \<le> EPS then (st, ex1) else trail_apply st ex1 cfg params new_cid))
      else trail_apply st ex cfg params new_cid)"

text \<open>
  A sequence of trailing updates. Every call may meet any state of the venue, so each
  call carries the exchange it runs against, its parameters and its fresh client id.
\<close>

fun trail_run :: "RunState \<Rightarrow> Config \<Rightarrow> (exchange \<times> TrailParams \<times> string) list \<Rightarrow> RunState list" where
  "trail_run st cfg [] = []"
| "trail_run st cfg ((ex, params, new_cid) # calls) =
     (let st1 = fst (update_trailing_sl st ex cfg params new_cid)
      in st1 # trail_run st1 cfg calls)"

text \<open>
  The order in which a tracked stop may move for a side: up for a long, down for a short;
  no tracked stop yet may be followed by anything.
\<close>

definition tracked_le :: "side \<Rightarrow> rat option \<Rightarrow> rat option \<Rightarrow> bool" where
  "tracked_le sd x y =
     (case x of None \<Rightarrow> True
      | Some a \<Rightarrow> (case y of None \<Rightarrow> False
                   | Some b \<Rightarrow> if sd = Long then a \<le> b else b \<le> a))"

definition protective_stops :: "exchange \<Rightarrow> order list" where
  "protective_stops ex =
     filter (\<lambda>od. is_open od \<and> otype od = STOP_MARKET \<and> closePosition od) (orders ex)"

section \<open>Example inputs\<close>

definition st_base :: RunState where
  "st_base = st0\<lparr>account_cr := [''BTCUSDT'' \<mapsto> 0]\<rparr>"

definition ex_long :: exchange where
  "ex_long = \<lparr>orders = [], in_flight = [], positionAmt = [1], net = [], next_id = 1, posts = 0,
               gets = 0\<rparr>"

definition trail1 :: TrailParams where
  "trail1 = \<lparr>side = Long, entry = 100, stop = 90, current_price = 110, exec_df = []\<rparr>"

definition trail2 :: TrailParams where
  "trail2 = \<lparr>side = Long, entry = 105, stop = 100, current_price = 111, exec_df = []\<rparr>"

text \<open>
  A long position protected by one tracked stop at 95, and a venue on which the position
  check answers, the first placement fails, the cancel of the tracked stop goes through
  and the second placement fails.
\<close>

definition old_stop :: order where
  "old_stop = \<lparr>orderId = Some 1, clientOrderId = Some ''trail_old'', otype = STOP_MARKET,
               oside = SELL, closePosition = True, reduceOnly = False,
               stopPrice = Some 95, quantity = None, updateTime = 1, status = NEW\<rparr>"

definition st_tracked :: RunState where
  "st_tracked = st0\<lparr>last_trailing_sl := Some 95, last_trailing_side := Some Long,
                   last_trailing_client_id := Some ''trail_old''\<rparr>"

definition ex_two_failures :: exchange where
  "ex_two_failures = \<lparr>orders = [old_stop], in_flight = [], positionAmt = [1],
                      net = [Ok, Failed, Ok, Failed], next_id = 2, posts = 0, gets = 0\<rparr>"

section \<open>Candle buffers fed by the market stream\<close>

text \<open>\<^verbatim>\<open>deque(maxlen=n).append\<close>: a full buffer drops its oldest entries.\<close>

definition deque_append :: "nat \<Rightarrow> 'a list \<Rightarrow> 'a \<Rightarrow> 'a list" where
  "deque_append maxlen d x = drop (length d + 1 - maxlen) (d @ [x])"

text \<open>
  A kline event of the market stream, as \<^verbatim>\<open>on_message\<close> reads it: the stream name's
  suffix, the closed flag \<^verbatim>\<open>x\<close>, whether the symbol is the configured one, the
  candle, and the wall clock \<^verbatim>\<open>now_ms()\<close> at handling. Book-ticker events touch only
  the bid and ask and are left out.
\<close>

datatype stream = Kline_1m | Kline_5m | Other_stream

record kline_event =
  stype :: stream
  closed :: bool
  symbol_ok :: bool
  kline :: candle
  recv_ms :: int

definition buf_append :: "candle list \<Rightarrow> candle \<Rightarrow> candle list" where
  "buf_append kl k =
     (if kl = [] \<or> otime (last kl) \<noteq> otime k then deque_append 500 kl k else kl)"

definition on_message :: "RunState \<Rightarrow> kline_event \<Rightarrow> RunState" where
  "on_message st ev =
     (if closed ev \<and> symbol_ok ev
      then (case stype ev of
              Kline_1m \<Rightarrow> st\<lparr>kl_1m := buf_append (kl_1m st) (kline ev),
                              last_market_ws_ts := recv_ms ev\<rparr>
            | Kline_5m \<Rightarrow> st\<lparr>kl_5m := buf_append (kl_5m st) (kline ev),
                              last_market_ws_ts := recv_ms ev\<rparr>
            | Other_stream \<Rightarrow> st\<lparr>last_market_ws_ts := recv_ms ev\<rparr>)
      else st)"

definition feed :: "RunState \<Rightarrow> kline_event list \<Rightarrow> RunState" where
  "feed st evs = foldl on_message st evs"

text \<open>The candles of one stream that \<^verbatim>\<open>on_message\<close> considers, in delivery order.\<close>

definition delivered :: "stream \<Rightarrow> kline_event list \<Rightarrow> candle list" where
  "delivered s evs = map kline (filter (\<lambda>ev. closed ev \<and> symbol_ok ev \<and> stype ev = s) evs)"

definition bar :: "int \<Rightarrow> candle" where
  "bar t = \<lparr>otime = t, opn = 100, high = 101, low = 99, cls = 100, volume = 1\<rparr>"

definition ev_1m :: "int \<Rightarrow> kline_event" where
  "ev_1m t = \<lparr>stype = Kline_1m, closed = True, symbol_ok = True, kline = bar t, recv_ms = t\<rparr>"

section \<open>Idempotent market entry\<close>






text \<open>Orders carrying a client id: booked at the venue, or booked and still in flight.\<close>

definition has_cid :: "string \<Rightarrow> order \<Rightarrow> bool" where
  "has_cid cid od = (clientOrderId od = Some cid)"


definition known :: "string \<Rightarrow> exchange \<Rightarrow> order list" where
  "known cid ex = filter (has_cid cid) (orders ex @ in_flight ex)"

section \<open>Startup reconciliation\<close>

definition partition_open_orders :: "order list \<Rightarrow> order list \<times> order list \<times> order list" where
  "partition_open_orders open_ords =
     (filter (\<lambda>od. otype od = STOP_MARKET \<and> closePosition od) open_ords,
      filter (\<lambda>od. \<not> (otype od = STOP_MARKET \<and> closePosition od) \<and>
                   otype od = TAKE_PROFIT_MARKET \<and> reduceOnly od) open_ords,
      filter (\<lambda>od. \<not> (otype od = STOP_MARKET \<and> closePosition od) \<and>
                   \<not> (otype od = TAKE_PROFIT_MARKET \<and> reduceOnly od)) open_ords)"

definition cancel_one :: "exchange \<Rightarrow> order \<Rightarrow> exchange" where
  "cancel_one ex od =
     (case orderId od of None \<Rightarrow> ex | Some oid \<Rightarrow> snd (cancel_order_id ex oid))"

definition cancel_each :: "exchange \<Rightarrow> order list \<Rightarrow> exchange" where
  "cancel_each ex ods = foldl cancel_one ex ods"

definition clear_trailing_cache :: "RunState \<Rightarrow> side option \<Rightarrow> RunState" where
  "clear_trailing_cache st new_side =
     st\<lparr>last_trailing_client_id := None, last_trailing_sl := None,
        last_trailing_side := new_side, last_trailing_order_id := None\<rparr>"

text \<open>
  Python's \<^verbatim>\<open>max(candidates, key=...)\<close> returns the first of the maximal elements; the
  loop after it cancels every candidate that is not that very object. The position in
  the list stands for the object's identity.
\<close>

fun argmax_first :: "('a \<Rightarrow> int) \<Rightarrow> 'a list \<Rightarrow> nat" where
  "argmax_first f [] = 0"
| "argmax_first f [x] = 0"
| "argmax_first f (x # y # ys) =
     (let j = Suc (argmax_first f (y # ys))
      in if f ((y # ys) ! (j - 1)) > f x then j else 0)"

definition all_but :: "nat \<Rightarrow> 'a list \<Rightarrow> 'a list" where
  "all_but i xs = take i xs @ drop (Suc i) xs"

text \<open>
  The dict \<^verbatim>\<open>uniq\<close>: the first order seen at each stop price, in insertion order; an
  order without a stop price is skipped.
\<close>

fun uniq_by_price :: "(rat \<times> order) list \<Rightarrow> order list \<Rightarrow> (rat \<times> order) list" where
  "uniq_by_price acc [] = acc"
| "uniq_by_price acc (od # ods) =
     (case stopPrice od of
        None \<Rightarrow> uniq_by_price acc ods
      | Some sp \<Rightarrow>
          (if sp \<in> fst ` set acc then uniq_by_price acc ods
           else uniq_by_price (acc @ [(sp, od)]) ods))"

definition reconcile_in_position ::
  "RunState \<Rightarrow> exchange \<Rightarrow> side \<Rightarrow> order list \<Rightarrow> order list \<Rightarrow> RunState \<times> exchange" where
  "reconcile_in_position st ex side_live prot tps =
     (let want_exit_side = (if side_live = Long then SELL else BUY);
          candidates = filter (\<lambda>od. oside od = want_exit_side) prot;
          i = argmax_first updateTime candidates;
          ex1 = cancel_each ex (all_but i candidates);
          ex2 = cancel_each ex1 (filter (\<lambda>od. oside od \<noteq> want_exit_side) prot);
          st1 = (if candidates \<noteq> []
                 then (let keep_prot = candidates ! i
                       in st\<lparr>last_trailing_client_id := clientOrderId keep_prot,
                             last_trailing_sl := stopPrice keep_prot,
                             last_trailing_side := Some side_live,
                             last_trailing_order_id := orderId keep_prot\<rparr>)
                 else clear_trailing_cache st (Some side_live));
          tp_side = want_exit_side;
          good_tps = filter (\<lambda>od. oside od = tp_side) tps;
          uniq = uniq_by_price [] good_tps;
          ranked = (if side_live = Long then rev (sort_key fst uniq) else sort_key fst uniq);
          ex3 = cancel_each ex2 (map snd (drop 2 ranked));
          ex4 = cancel_each ex3 (filter (\<lambda>od. oside od \<noteq> tp_side) tps)
      in (st1, ex4))"

definition reconcile_startup_orders :: "exchange \<Rightarrow> RunState \<Rightarrow> RunState \<times> exchange" where
  "reconcile_startup_orders ex st =
     (case position_net_and_gross ex of
        (Inl _, ex1) \<Rightarrow> (st, ex1)
      | (Inr (netp, gross), ex1) \<Rightarrow>
          (case open_orders ex1 of
             (Inl _, ex2) \<Rightarrow> (st, ex2)
           | (Inr openos, ex2) \<Rightarrow>
               (case partition_open_orders openos of (prot, tps, others) \<Rightarrow>
                  (let side_live = (if 0 < netp then Some Long
                                    else if netp < 0 then Some Short else None)
                   in case side_live of
                        None \<Rightarrow> (clear_trailing_cache st None, cancel_each ex2 (prot @ tps))
                      | Some sl \<Rightarrow>
                          (if \<bar>gross\<bar> \<le> EPS
                           then (clear_trailing_cache st None, cancel_each ex2 (prot @ tps))
                           else reconcile_in_position st ex2 sl prot tps)))))"

definition take_profits :: "exchange \<Rightarrow> order list" where
  "take_profits ex =
     filter (\<lambda>od. is_open od \<and> otype od = TAKE_PROFIT_MARKET \<and> reduceOnly od) (orders ex)"

definition tp_sell :: "int \<Rightarrow> rat \<Rightarrow> order" where
  "tp_sell i p = \<lparr>orderId = Some i, clientOrderId = None, otype = TAKE_PROFIT_MARKET,
                  oside = SELL, closePosition = False, reduceOnly = True,
                  stopPrice = Some p, quantity = Some 1, updateTime = i, status = NEW\<rparr>"

text \<open>A long position with three reduce-only take-profits resting at the same price.\<close>

definition ex_same_price_tps :: exchange where
  "ex_same_price_tps = \<lparr>orders = [tp_sell 1 110, tp_sell 2 110, tp_sell 3 110], in_flight = [],
                        positionAmt = [1], net = [], next_id = 4, posts = 0, gets = 0\<rparr>"


section \<open>Level builder: clustering and cap\<close>

text \<open>A liquidity level \<^verbatim>\<open>(price, weight, tag)\<close>.\<close>

type_synonym level = "rat \<times> rat \<times> string"

text \<open>Python's \<^verbatim>\<open>min(xs, key=f)\<close> on a non-empty list: the first of the minimal elements.\<close>

fun min_by :: "('a \<Rightarrow> 'k::linorder) \<Rightarrow> 'a \<Rightarrow> 'a list \<Rightarrow> 'a" where
  "min_by f x [] = x"
| "min_by f x (y # ys) = min_by f (if f y < f x then y else x) ys"





text \<open>
  For one representative price: the candidates within the tolerance, and of them the
  first that is minimal in \<^verbatim>\<open>(bps_distance, -weight)\<close>.
\<close>

definition pick_level :: "level list \<Rightarrow> rat \<Rightarrow> rat \<Rightarrow> level list" where
  "pick_level levels tol p =
     (case filter (\<lambda>t. within_bps (fst t) p tol) levels of
        [] \<Rightarrow> []
      | c # cs \<Rightarrow> [min_by (\<lambda>t. (bps_distance (fst t) p, - fst (snd t))) c cs])"





section \<open>Signal identity\<close>





















section \<open>Pattern detector\<close>
























section \<open>Funding gate: results\<close>

text \<open>
  C6, as stated, fails: with funding awareness on, a known next funding time and no
  server-time sample, the gate blocks with reason \<^verbatim>\<open>time_unknown\<close>; the claim says it
  does not block there.
\<close>

theorem funding_gate_no_server_time_counterexample:
  "last_server_ms st0 = None \<and> nextFundingTime premium0 \<noteq> None \<and>
   gate_blocks (funding_gate (Premium premium0) st0 cfg0)"
  by (simp add: funding_gate_def current_funding_info_def gate_blocks_def
        st0_def cfg0_def premium0_def)

text \<open>
  C6, amended: when funding awareness is enabled and the funding request returns,
  \<^verbatim>\<open>funding_gate\<close> hard-blocks with reason \<^verbatim>\<open>time_unknown\<close> whenever the next funding
  time is unknown or the server-time sample is unavailable (either one suffices), with
  no score penalty and risk multiplier 1.
\<close>

theorem funding_gate_time_unknown_blocks:
  assumes "funding_aware_enable cfg"
    and "current_funding_info ex = Inr (rate, nft)"
    and "nft = None \<or> last_server_ms st = None"
  shows "funding_gate ex st cfg =
           Inr (True, 0, 1, \<lparr>reason = Some ''time_unknown'', mins_to = None, abs_bps = None\<rparr>)"
  using assms by (auto simp: funding_gate_def split: option.splits)

theorem funding_gate_time_unknown_blocks_witness:
  "funding_gate (Premium premium0) st0 cfg0 =
     Inr (True, 0, 1, \<lparr>reason = Some ''time_unknown'', mins_to = None, abs_bps = None\<rparr>)"
proof -
  have a: "funding_aware_enable cfg0" by (simp add: cfg0_def)
  have b: "current_funding_info (Premium premium0) = Inr (Some (1 / 10000), Some 1700000000000)"
    by (simp add: current_funding_info_def premium0_def)
  have c: "Some (1700000000000::int) = None \<or> last_server_ms st0 = None" by (simp add: st0_def)
  show ?thesis using funding_gate_time_unknown_blocks [OF a b c] .
qed

section \<open>Daily guardrail: results\<close>

lemma account_update_keeps:
  "trades_today (account_update_pos now st p) = trades_today st"
  "day_start_equity (account_update_pos now st p) = day_start_equity st"
  by (auto simp: account_update_pos_def Let_def split: prod.splits option.splits)

lemma on_account_update_keeps:
  "trades_today (on_account_update now st ps) = trades_today st \<and>
   day_start_equity (on_account_update now st ps) = day_start_equity st"
  unfolding on_account_update_def
  by (induction ps arbitrary: st) (simp_all add: account_update_keeps)

text \<open>
  The handler adds every delta of the cumulative realized value, gain or loss, so what
  \<^verbatim>\<open>realized_today\<close> gains over a stream of updates for one symbol is the net change
  of that value.
\<close>

lemma realized_net:
  "account_cr st s = Some c0 \<Longrightarrow>
   realized_today (on_account_update now st (map (Pair s) crs))
     = realized_today st + (last (c0 # crs) - c0)"
  unfolding on_account_update_def
proof (induction crs arbitrary: st c0)
  case Nil
  then show ?case by simp
next
  case (Cons c crs)
  let ?st1 = "account_update_pos now st (s, c)"
  have a: "account_cr ?st1 s = Some c"
    using Cons.prems by (auto simp: account_update_pos_def Let_def)
  have b: "realized_today ?st1 = realized_today st + (c - c0)"
    using Cons.prems by (auto simp: account_update_pos_def Let_def)
  show ?case using Cons.IH [OF a] b by simp
qed

text \<open>
  C5, as stated, fails: after a realized loss of 100 on a day-start equity of 1000 the
  guardrail blocks; a realized gain of 100 follows with no day rollover, and the guardrail
  no longer blocks, although the losses alone are still 10 percent of the day-start
  equity against a limit of 3 percent.
\<close>

theorem daily_guardrail_counterexample:
  "max_daily_loss_pct cfg0
     \<le> losses_only (cr_deltas 0 [- 100, 0]) / max EPS (day_start_equity st_base) \<and>
   daily_guardrails_blocked
     (on_account_update 0 st_base [(''BTCUSDT'', - 100)]) cfg0 \<and>
   \<not> daily_guardrails_blocked
     (on_account_update 0 st_base [(''BTCUSDT'', - 100), (''BTCUSDT'', 0)]) cfg0"
  by (simp add: daily_guardrails_blocked_def on_account_update_def account_update_pos_def
      st_base_def st0_def cfg0_def losses_only_def EPS_def Let_def)

text \<open>
  C5, amended: \<^verbatim>\<open>daily_guardrails_blocked\<close> blocks exactly when the trade count has
  reached the daily maximum, or the net realized PnL of the day is a loss whose size, as
  a fraction of the day-start equity (floored at \<open>EPS\<close>), has reached the maximum daily
  loss fraction. The net figure is the running sum of all cumulative-realized deltas, so
  gains do net losses out.
\<close>

theorem daily_guardrail_net:
  assumes "account_cr st s = Some c0"
  shows "daily_guardrails_blocked (on_account_update now st (map (Pair s) crs)) cfg \<longleftrightarrow>
           (max_trades_per_day cfg \<le> trades_today st \<or>
            max_daily_loss_pct cfg
              \<le> max 0 (- (realized_today st + (last (c0 # crs) - c0)))
                  / max EPS (day_start_equity st))"
  using realized_net [OF assms, of now crs] on_account_update_keeps [of now st "map (Pair s) crs"]
  by (simp add: daily_guardrails_blocked_def Let_def)

theorem daily_guardrail_net_witness:
  "daily_guardrails_blocked
     (on_account_update 0 st_base (map (Pair ''BTCUSDT'') [- 100, - 40])) cfg0"
proof -
  have a: "account_cr st_base ''BTCUSDT'' = Some 0" by (simp add: st_base_def)
  have b: "max_trades_per_day cfg0 \<le> trades_today st_base \<or>
           max_daily_loss_pct cfg0
             \<le> max 0 (- (realized_today st_base + (last (0 # [- 100, - 40]) - 0)))
                 / max EPS (day_start_equity st_base)"
    by (simp add: st_base_def st0_def cfg0_def EPS_def)
  show ?thesis
    using iffD2 [OF daily_guardrail_net [OF a, of 0 "[- 100, - 40]" cfg0] b] .
qed

section \<open>Trailing stop: results\<close>
lemma min_improve_pos: "0 < of_int (max 1 (m::int)) * max EPS (t::rat)"
proof -
  have "0 < max EPS t" by (simp add: EPS_def max_def)
  moreover have "(0::rat) < of_int (max 1 m)" by simp
  ultimately show ?thesis by (rule_tac mult_pos_pos)
qed

lemma improvement_ok_ratchet:
  assumes "trailing_improvement_ok st sd new_sl m"
    and "last_trailing_side st = Some sd \<or> last_trailing_sl st = None"
  shows "tracked_le sd (last_trailing_sl st) (Some new_sl)"
  using assms min_improve_pos [of m "tick st"]
  by (cases sd) (auto simp: trailing_improvement_ok_def tracked_le_def Let_def
        split: option.splits if_splits)

lemma tracked_le_refl: "tracked_le sd x x"
  by (simp add: tracked_le_def split: option.splits)

lemma tracked_le_trans: "tracked_le sd x y \<Longrightarrow> tracked_le sd y z \<Longrightarrow> tracked_le sd x z"
  by (auto simp: tracked_le_def split: option.splits if_splits)

lemma trail_apply_ratchet:
  assumes "side params = sd"
    and "last_trailing_side st = Some sd \<or> last_trailing_sl st = None"
    and "trail_apply st ex cfg params cid = (st1, ex1)"
  shows "tracked_le sd (last_trailing_sl st) (last_trailing_sl st1) \<and>
         (last_trailing_side st1 = Some sd \<or> last_trailing_sl st1 = None)"
  using assms improvement_ok_ratchet [of st sd _ "trail_min_tick_improve cfg"]
  by (auto simp: trail_apply_def Let_def tracked_le_refl
        split: option.splits if_splits prod.splits bool.splits)

lemma update_trailing_sl_ratchet:
  assumes "side params = sd"
    and "last_trailing_side st = Some sd \<or> last_trailing_sl st = None"
    and "update_trailing_sl st ex cfg params cid = (st1, ex1)"
  shows "tracked_le sd (last_trailing_sl st) (last_trailing_sl st1) \<and>
         (last_trailing_side st1 = Some sd \<or> last_trailing_sl st1 = None)"
proof -
  have stay: "st1 = st \<Longrightarrow> ?thesis" using assms(2) by (simp add: tracked_le_refl)
  from assms(3) consider "st1 = st" | ex0 where "trail_apply st ex0 cfg params cid = (st1, ex1)"
    by (auto simp: update_trailing_sl_def split: if_splits prod.splits sum.splits)
  then show ?thesis
  proof cases
    case 1 then show ?thesis by (rule stay)
  next
    case 2 then show ?thesis by (rule trail_apply_ratchet [OF assms(1,2)])
  qed
qed

text \<open>
  C4: across any sequence of \<^verbatim>\<open>update_trailing_sl\<close> calls for one side, whatever the
  venue answers, the tracked stop \<^verbatim>\<open>last_trailing_sl\<close> never moves down for a long and
  never moves up for a short: every earlier tracked value is at or before every later
  one in the order \<open>tracked_le\<close>. The tracked stop at the start belongs to the same
  side, or there is none.
\<close>

theorem trailing_ratchet:
  assumes "\<forall>c \<in> set calls. side (fst (snd c)) = sd"
    and "last_trailing_side st = Some sd \<or> last_trailing_sl st = None"
  shows "sorted_wrt (tracked_le sd) (map last_trailing_sl (st # trail_run st cfg calls))"
  using assms
proof (induction calls arbitrary: st)
  case Nil
  then show ?case by simp
next
  case (Cons c calls)
  obtain ex params cid where c: "c = (ex, params, cid)" by (cases c) auto
  obtain st1 ex1 where u: "update_trailing_sl st ex cfg params cid = (st1, ex1)"
    by (cases "update_trailing_sl st ex cfg params cid") auto
  have sd: "side params = sd" using Cons.prems(1) c by simp
  note step = update_trailing_sl_ratchet [OF sd Cons.prems(2) u]
  have ih: "sorted_wrt (tracked_le sd) (map last_trailing_sl (st1 # trail_run st1 cfg calls))"
    using Cons.IH [of st1] Cons.prems(1) step by simp
  have "\<forall>y \<in> set (map last_trailing_sl (st1 # trail_run st1 cfg calls)).
          tracked_le sd (last_trailing_sl st) y"
    using ih step tracked_le_trans [of sd "last_trailing_sl st" "last_trailing_sl st1"]
    by auto
  then show ?case using ih c u by (simp add: Let_def)
qed

theorem trailing_ratchet_witness:
  "sorted_wrt (tracked_le Long)
     (map last_trailing_sl
        (st0 # trail_run st0 cfg0 [(ex_long, trail1, ''t1''), (ex_long, trail2, ''t2'')])) \<and>
   map last_trailing_sl
     (st0 # trail_run st0 cfg0 [(ex_long, trail1, ''t1''), (ex_long, trail2, ''t2'')])
     = [None, Some 100, Some 105]"
proof -
  have a: "\<forall>c \<in> set [(ex_long, trail1, ''t1''), (ex_long, trail2, ''t2'')].
             side (fst (snd c)) = Long"
    by (simp add: trail1_def trail2_def)
  have b: "last_trailing_side st0 = Some Long \<or> last_trailing_sl st0 = None"
    by (simp add: st0_def)
  have c: "map last_trailing_sl
             (st0 # trail_run st0 cfg0 [(ex_long, trail1, ''t1''), (ex_long, trail2, ''t2'')])
           = [None, Some 100, Some 105]"
    by code_simp
  show ?thesis using trailing_ratchet [OF a b, of cfg0] c by blast
qed

text \<open>
  C1: the claim is what the source's own log line promises (\<^verbatim>\<open>replace failed (kept
  previous protective stop)\<close>), and the code breaks it. With a tracked stop on the venue,
  the first placement fails, the tracked stop is cancelled, the second placement fails:
  two submissions were made, no open close-position stop is left on the venue, and the
  run state still tracks the cancelled stop.
\<close>

theorem update_trailing_sl_unprotected:
  "(case update_trailing_sl st_tracked ex_two_failures cfg0 trail1 ''trail_new'' of
      (st1, ex1) \<Rightarrow>
        posts ex1 = 2 \<and> net ex1 = [] \<and> protective_stops ex1 = [] \<and>
        last_trailing_client_id st1 = Some ''trail_old'' \<and> last_trailing_sl st1 = Some 95) \<and>
   protective_stops ex_two_failures = [old_stop]"
  by code_simp

section \<open>Candle buffers: results\<close>

lemma buf_append_sorted:
  assumes "sorted_wrt (<) (map otime kl)" and "\<forall>x \<in> set kl. otime x \<le> otime k"
  shows "sorted_wrt (<) (map otime (buf_append kl k))"
proof (cases "kl = [] \<or> otime (last kl) \<noteq> otime k")
  case False
  then show ?thesis using assms by (simp add: buf_append_def)
next
  case True
  have lt: "\<forall>x \<in> set kl. otime x < otime k"
  proof
    fix x assume x: "x \<in> set kl"
    then have ne: "kl \<noteq> []" by auto
    have "otime x \<le> otime (last kl)"
    proof (cases "x = last kl")
      case True then show ?thesis by simp
    next
      case False
      obtain ys where kl: "kl = ys @ [last kl]" using ne by (metis append_butlast_last_id)
      then have "x \<in> set ys" using x False by (metis Un_iff empty_iff empty_set set_ConsD set_append)
      moreover have "sorted_wrt (<) (map otime (ys @ [last kl]))" using assms(1) kl by simp
      ultimately show ?thesis by (auto simp: sorted_wrt_append)
    qed
    moreover have "otime (last kl) \<le> otime k" using assms(2) ne by simp
    moreover have "otime (last kl) \<noteq> otime k" using True ne by simp
    ultimately show "otime x < otime k" by simp
  qed
  have "sorted_wrt (<) (map otime (kl @ [k]))"
    using assms(1) lt by (auto simp: sorted_wrt_append)
  then have "sorted_wrt (<) (drop (length kl + 1 - 500) (map otime (kl @ [k])))"
    by (rule sorted_wrt_drop)
  then show ?thesis using True by (simp add: buf_append_def deque_append_def drop_map)
qed

lemma set_buf_append: "set (buf_append kl k) \<subseteq> insert k (set kl)"
  by (auto simp: buf_append_def deque_append_def dest: in_set_dropD)

lemma foldl_buf_append_sorted:
  assumes "sorted_wrt (<) (map otime kl)" and "sorted (map otime kl @ map otime ks)"
  shows "sorted_wrt (<) (map otime (foldl buf_append kl ks))"
  using assms
proof (induction ks arbitrary: kl)
  case Nil
  then show ?case by simp
next
  case (Cons k ks)
  have le: "\<forall>x \<in> set kl. otime x \<le> otime k"
    using Cons.prems(2) by (auto simp: sorted_append)
  have a: "sorted_wrt (<) (map otime (buf_append kl k))"
    by (rule buf_append_sorted [OF Cons.prems(1) le])
  have "sorted (map otime ks)" "\<forall>y \<in> set ks. otime k \<le> otime y"
       "\<forall>x \<in> set kl. \<forall>y \<in> set ks. otime x \<le> otime y"
    using Cons.prems(2) by (auto simp: sorted_append)
  then have b: "sorted (map otime (buf_append kl k) @ map otime ks)"
    using a set_buf_append [of kl k]
    by (auto simp: sorted_append intro: strict_sorted_imp_sorted)
  show ?case using Cons.IH [OF a b] by simp
qed

lemma feed_kl:
  "kl_1m (feed st evs) = foldl buf_append (kl_1m st) (delivered Kline_1m evs) \<and>
   kl_5m (feed st evs) = foldl buf_append (kl_5m st) (delivered Kline_5m evs)"
  unfolding feed_def delivered_def
  by (induction evs arbitrary: st) (auto simp: on_message_def split: stream.splits)

text \<open>
  C9, as stated, fails: the guard compares the delivered open-time with the newest
  buffered candle only. The closed candles 1, 2 and then 1 again leave the one-minute
  buffer with open-times 1, 2, 1, neither ordered nor unique.
\<close>

theorem candle_buffer_out_of_order_counterexample:
  "map otime (kl_1m (feed st0 [ev_1m 1, ev_1m 2, ev_1m 1])) = [1, 2, 1] \<and>
   \<not> distinct (map otime (kl_1m (feed st0 [ev_1m 1, ev_1m 2, ev_1m 1]))) \<and>
   \<not> sorted (map otime (kl_1m (feed st0 [ev_1m 1, ev_1m 2, ev_1m 1])))"
proof -
  have "map otime (kl_1m (feed st0 [ev_1m 1, ev_1m 2, ev_1m 1])) = [1, 2, 1]"
    by code_simp
  then show ?thesis by simp
qed

text \<open>
  C9, amended: for every sequence of closed-candle deliveries in which the open-times of
  each stream never go backwards (repeats included) and do not precede the newest
  buffered candle, buffers that are strictly ordered by open-time stay strictly ordered
  by open-time, hence with unique open-times. Deliveries that go backwards are not
  covered: the guard looks at the newest buffered candle only.
\<close>

theorem candle_buffers_ordered:
  assumes "sorted_wrt (<) (map otime (kl_1m st))"
    and "sorted_wrt (<) (map otime (kl_5m st))"
    and "sorted (map otime (kl_1m st) @ map otime (delivered Kline_1m evs))"
    and "sorted (map otime (kl_5m st) @ map otime (delivered Kline_5m evs))"
  shows "sorted_wrt (<) (map otime (kl_1m (feed st evs))) \<and>
         sorted_wrt (<) (map otime (kl_5m (feed st evs)))"
  using foldl_buf_append_sorted [OF assms(1,3)] foldl_buf_append_sorted [OF assms(2,4)]
  by (simp add: feed_kl)

theorem candle_buffers_ordered_witness:
  "sorted_wrt (<) (map otime (kl_1m (feed st0 [ev_1m 1, ev_1m 1, ev_1m 2]))) \<and>
   sorted_wrt (<) (map otime (kl_5m (feed st0 [ev_1m 1, ev_1m 1, ev_1m 2]))) \<and>
   map otime (kl_1m (feed st0 [ev_1m 1, ev_1m 1, ev_1m 2])) = [1, 2]"
proof -
  have a: "sorted_wrt (<) (map otime (kl_1m st0))" by (simp add: st0_def)
  have b: "sorted_wrt (<) (map otime (kl_5m st0))" by (simp add: st0_def)
  have d1: "map otime (delivered Kline_1m [ev_1m 1, ev_1m 1, ev_1m 2]) = [1, 1, 2]"
    by code_simp
  have d5: "delivered Kline_5m [ev_1m 1, ev_1m 1, ev_1m 2] = []"
    by (simp add: delivered_def ev_1m_def)
  have c: "sorted (map otime (kl_1m st0) @ map otime (delivered Kline_1m [ev_1m 1, ev_1m 1, ev_1m 2]))"
    by (simp add: d1) (simp add: st0_def)
  have d: "sorted (map otime (kl_5m st0) @ map otime (delivered Kline_5m [ev_1m 1, ev_1m 1, ev_1m 2]))"
    by (simp add: d5) (simp add: st0_def)
  have e: "map otime (kl_1m (feed st0 [ev_1m 1, ev_1m 1, ev_1m 2])) = [1, 2]"
    by code_simp
  show ?thesis using candle_buffers_ordered [OF a b c d] e by blast
qed

section \<open>Startup reconciliation: results\<close>

text \<open>
  C3: the claim is what the docstring of \<^verbatim>\<open>reconcile_startup_orders\<close> promises (keep at
  most two take-profits, distinct stop prices), and the code breaks it. A long position
  with three reduce-only sell take-profits at the same stop price: the duplicates never
  enter \<^verbatim>\<open>uniq\<close> and nothing cancels them, so all three stay open.
\<close>

theorem reconcile_keeps_same_price_tps:
  "(case reconcile_startup_orders ex_same_price_tps st0 of
      (st1, ex1) \<Rightarrow>
        map orderId (take_profits ex1) = [Some 1, Some 2, Some 3] \<and>
        map stopPrice (take_profits ex1) = [Some 110, Some 110, Some 110])"
  by code_simp

section \<open>Idempotent entry: results\<close>

lemma has_cid_book [simp]:
  "filter (has_cid cid) (orders (book ex od)) =
     filter (has_cid cid) (orders ex) @ (if has_cid cid od then [od\<lparr>orderId := Some (next_id ex), status := NEW, updateTime := next_id ex\<rparr>] else [])"
  by (simp add: book_def has_cid_def)

lemma book_fields [simp]:
  "in_flight (book ex od) = in_flight ex" "posts (book ex od) = posts ex"
  "gets (book ex od) = gets ex" "net (book ex od) = net ex"
  by (simp_all add: book_def)

lemma deliver_all_known:
  "length (filter (has_cid cid) (orders (deliver_all ex ods)))
     = length (filter (has_cid cid) (orders ex)) + length (filter (has_cid cid) ods) \<and>
   in_flight (deliver_all ex ods) = in_flight ex \<and>
   posts (deliver_all ex ods) = posts ex \<and> gets (deliver_all ex ods) = gets ex"
  by (induction ods arbitrary: ex) auto

lemma deliver_known [simp]:
  "length (known cid (deliver ex)) = length (known cid ex)"
  "posts (deliver ex) = posts ex" "gets (deliver ex) = gets ex"
  "in_flight (deliver ex) = []"
  using deliver_all_known [of cid "ex\<lparr>in_flight := []\<rparr>" "in_flight ex"]
  by (simp_all add: known_def deliver_def)






lemma known_upd [simp]:
  "known cid (ex\<lparr>posts := p\<rparr>) = known cid ex" "known cid (ex\<lparr>gets := g\<rparr>) = known cid ex"
  by (simp_all add: known_def)








section \<open>Level builder: results\<close>








lemma pick_level_length: "length (pick_level levels tol p) \<le> 1"
  by (cases "filter (\<lambda>t. within_bps (fst t) p tol) levels") (simp_all add: pick_level_def)



















section \<open>Signal identity: results\<close>














section \<open>Pattern detector: results\<close>
















end
